theory Spec2Isabelle
  imports Complex_Main "HOL-Library.Char_ord" "HOL-Library.List_Lexorder"
begin

section \<open>The weighted crosstab of the Pew National Latino Surveys notebook\<close>

text \<open>
  The notebook defines one function,
  \<^verbatim>\<open>
  def quick_crosstab(df,meta,x,y,weights):
      crosstab = pd.crosstab(
                              df[x].map(meta.variable_value_labels[x]),
                              df[y].map(meta.variable_value_labels[y]),
                              weights, aggfunc=sum, dropna=True, normalize='columns'
                              ).
                          loc[meta.variable_value_labels[x].values()].
                          loc[:,meta.variable_value_labels[y].values()] *100
      return(crosstab)  # values in percentages
  \<close>
  and calls it on the two survey files it loads. Every step of the body is a call into
  pandas (version 1.x, the one current for the notebook's Python 3.8 kernel); each is
  modelled below by a function of its own, named after the pandas operation, and
  \<open>quick_crosstab\<close> composes them in the order Python evaluates them.

  Numbers: a cell of a pandas frame is a 64-bit float. The model keeps the three special
  values of float arithmetic that the pipeline can produce (not-a-number and the two
  infinities) and takes every other value as an exact real; rounding and overflow of
  finite values are not modelled.
\<close>

subsection \<open>Data\<close>

text \<open>A raw cell of a survey table: a numeric code, a string, or missing (NaN).\<close>

datatype raw = Num real | Str string | Missing

type_synonym label = string

text \<open>
  A value-label dictionary (raw code to display label) as Python keeps it: the items in
  insertion order. A Python dictionary has no repeated key.
\<close>

type_synonym value_labels = "(raw \<times> label) list"

text \<open>The metadata object of pyreadstat; only \<open>variable_value_labels\<close> is read.\<close>

record metadata =
  variable_value_labels :: "string \<rightharpoonup> value_labels"

text \<open>
  The survey table: its column names, and its rows in file order. pyreadstat gives the
  frame the default row index \<open>0, 1, ..., n - 1\<close>, so a row's label is its position.
\<close>

record dataframe =
  columns :: "string list"
  rows :: "(string \<Rightarrow> raw) list"

text \<open>
  The weights argument. The notebook passes a column of the table (\<open>df15.weights\<close>), a
  pandas Series: values with their row labels. A plain sequence (list or array) has
  positions only. A missing weight is \<open>None\<close>.
\<close>

datatype weights = Series "(nat \<times> real option) list" | Array "real option list"

text \<open>A float cell of a computed frame.\<close>

datatype float64 = Fin real | PosInf | NegInf | NaN

text \<open>
  A computed frame (the contingency table): row labels, column labels and the matrix of
  cells, one list per row.
\<close>

record 'a frame =
  index :: "label list"
  cols :: "label list"
  cells :: "'a list list"

text \<open>Where a \<open>KeyError\<close> is raised, and the errors of the call.\<close>

datatype site = DataColumn | ValueLabels | RowLabels | ColumnLabels

datatype error = KeyError site | ValueError | NameError string

subsection \<open>The pandas operations of the body\<close>

text \<open>\<open>df[c]\<close>: the column as a sequence in row order; \<open>KeyError\<close> when there is none.\<close>

definition getitem :: "dataframe \<Rightarrow> string \<Rightarrow> error + raw list" where
  "getitem df c =
     (if c \<in> set (columns df) then Inr (map (\<lambda>r. r c) (rows df))
      else Inl (KeyError DataColumn))"

text \<open>\<open>meta.variable_value_labels[c]\<close>: a dictionary lookup.\<close>

definition value_labels_of :: "metadata \<Rightarrow> string \<Rightarrow> error + value_labels" where
  "value_labels_of meta c =
     (case variable_value_labels meta c of
        None \<Rightarrow> Inl (KeyError ValueLabels)
      | Some d \<Rightarrow> Inr d)"

text \<open>
  \<open>s.map(d)\<close> with a dictionary: each value is replaced by its entry, and a value with
  no entry becomes missing.
\<close>

definition map_series :: "raw list \<Rightarrow> value_labels \<Rightarrow> label option list" where
  "map_series s d = map (map_of d) s"

text \<open>\<open>d.values()\<close>: the labels in the dictionary's order.\<close>

definition dict_values :: "value_labels \<Rightarrow> label list" where
  "dict_values d = map snd d"

text \<open>
  \<open>pd.crosstab\<close> builds a frame of the two key columns
  (\<open>df = DataFrame(data, index=common_idx)\<close>: \<open>n\<close> rows, labelled \<open>0..<n\<close>) and sets
  the values as a third column, \<open>df["__dummy__"] = values\<close>. Setting a column aligns
  a Series on the row labels: it is taken as it is when its labels are the frame's,
  otherwise re-indexed, which gives a missing value to a row the Series has no label
  for, drops the labels the frame does not have, and fails on a repeated label. A plain
  sequence has no labels and must have the frame's length (\<open>ValueError\<close>: length of
  values does not match length of index). A frame with no row takes over the index of
  the values, its key columns missing there; those rows are written as rows with
  missing keys.
\<close>

fun set_values ::
  "(label option \<times> label option) list \<Rightarrow> weights \<Rightarrow>
     error + (label option \<times> label option \<times> real option) list" where
  "set_values ks (Array vs) =
     (if ks = [] then Inr (map (\<lambda>v. (None, None, v)) vs)
      else if length vs = length ks then Inr (map2 (\<lambda>(r, c) v. (r, c, v)) ks vs)
      else Inl ValueError)"
| "set_values ks (Series s) =
     (if ks = [] then Inr (map (\<lambda>(i, v). (None, None, v)) s)
      else if map fst s = [0..<length ks] then Inr (map2 (\<lambda>(r, c) v. (r, c, v)) ks (map snd s))
      else if distinct (map fst s) then
        Inr (map2 (\<lambda>(r, c) i. (r, c, case map_of s i of None \<Rightarrow> None | Some v \<Rightarrow> v))
               ks [0..<length ks])
      else Inl ValueError)"

text \<open>
  The grouping of \<open>pivot_table\<close>: a row with a missing key on either axis is in no
  group.
\<close>

fun groupby ::
  "(label option \<times> label option \<times> real option) list \<Rightarrow> (label \<times> label \<times> real option) list" where
  "groupby [] = []"
| "groupby ((Some r, Some c, w) # ds) = (r, c, w) # groupby ds"
| "groupby (_ # ds) = groupby ds"

text \<open>
  The sum of a group (\<open>aggfunc=sum\<close>, which pandas runs as its own group sum):
  missing values are skipped, and the sum of none is 0.
\<close>

fun nansum :: "real option list \<Rightarrow> real" where
  "nansum [] = 0"
| "nansum (None # ws) = nansum ws"
| "nansum (Some w # ws) = w + nansum ws"

text \<open>The weights of the group of row label \<open>r\<close> and column label \<open>c\<close>.\<close>

definition group_weights :: "(label \<times> label \<times> real option) list \<Rightarrow> label \<Rightarrow> label \<Rightarrow> real option list" where
  "group_weights g r c = map (\<lambda>(r', c', w). w) (filter (\<lambda>(r', c', w). r' = r \<and> c' = c) g)"

text \<open>
  The aggregate of one cell: the sum of its group, or missing when no row falls in it.
\<close>

definition agg :: "(label \<times> label \<times> real option) list \<Rightarrow> label \<Rightarrow> label \<Rightarrow> real option" where
  "agg g r c = (if group_weights g r c = [] then None else Some (nansum (group_weights g r c)))"

text \<open>
  \<open>pivot_table\<close> with \<open>aggfunc=sum\<close> and \<open>dropna=True\<close>: the observed row labels
  and column labels, each sorted, and the aggregate of every cell.
\<close>

definition pivot_table ::
  "(label option \<times> label option \<times> real option) list \<Rightarrow> real option frame" where
  "pivot_table ds =
     (let g = groupby ds;
          rs = sort (remdups (map (\<lambda>(r, c, w). r) g));
          cs = sort (remdups (map (\<lambda>(r, c, w). c) g))
      in \<lparr>index = rs, cols = cs, cells = map (\<lambda>r. map (\<lambda>c. agg g r c) cs) rs\<rparr>)"

text \<open>
  Float division of a cell by a column total: a missing cell stays not-a-number, and a
  division by zero gives an infinity, or not-a-number for \<open>0/0\<close>.
\<close>

fun fdiv :: "real option \<Rightarrow> real \<Rightarrow> float64" where
  "fdiv None s = NaN"
| "fdiv (Some v) s =
     (if s \<noteq> 0 then Fin (v / s)
      else if 0 < v then PosInf else if v < 0 then NegInf else NaN)"

text \<open>\<open>fillna(0)\<close> on a cell.\<close>

fun fillna0 :: "float64 \<Rightarrow> float64" where
  "fillna0 NaN = Fin 0"
| "fillna0 v = v"

text \<open>The sum of column \<open>j\<close> of a table (\<open>x.sum()\<close>), missing cells skipped.\<close>

definition column_sum :: "real option frame \<Rightarrow> nat \<Rightarrow> real" where
  "column_sum t j = nansum (map (\<lambda>row. row ! j) (cells t))"

text \<open>
  \<open>normalize='columns'\<close>. The normalization of \<open>pd.crosstab\<close> (\<open>_normalize\<close> in
  \<open>pandas/core/reshape/pivot.py\<close>) is
  \<^verbatim>\<open>
      normalizers = {..., "columns": lambda x: x / x.sum(), ...}
      f = normalizers[normalize]
      table = f(table)
      table = table.fillna(0)
  \<close>
  so the table is divided by its column sums, and then every not-a-number cell, the
  cell of an empty group as well as a \<open>0/0\<close>, is filled with 0. (The pandas user guide
  shows it: its normalized crosstab with \<open>values\<close> and \<open>aggfunc\<close> prints \<open>0.0\<close>
  where the plain one prints \<open>NaN\<close>.)
\<close>

definition normalize_columns :: "real option frame \<Rightarrow> float64 frame" where
  "normalize_columns t =
     (let totals = map (column_sum t) [0..<length (cols t)]
      in \<lparr>index = index t, cols = cols t,
          cells = map (\<lambda>row. map2 (\<lambda>v s. fillna0 (fdiv v s)) row totals) (cells t)\<rparr>)"

text \<open>
  \<open>pd.crosstab(index, columns, values, aggfunc=sum, dropna=True, normalize='columns')\<close>
  on two Series of one table: the frame of the two key columns over their common rows,
  the values set as a third column, the pivot table, its normalization.
\<close>

definition crosstab ::
  "label option list \<Rightarrow> label option list \<Rightarrow> weights \<Rightarrow> error + float64 frame" where
  "crosstab idx cls vals =
     (case set_values (zip idx cls) vals of
        Inl e \<Rightarrow> Inl e
      | Inr ds \<Rightarrow> Inr (normalize_columns (pivot_table ds)))"

text \<open>
  \<open>t.loc[labels]\<close> with a list of labels: the rows of these labels, in the order of the
  list (every row that carries the label, for each label). Since pandas 1.0 a list with
  a label that is not in the index raises \<open>KeyError\<close>; no row of missing values is
  made up for it.
\<close>

definition loc_rows :: "label list \<Rightarrow> 'a frame \<Rightarrow> error + 'a frame" where
  "loc_rows ls t =
     (if \<forall>l \<in> set ls. l \<in> set (index t) then
        (let sel = concat (map (\<lambda>l. filter (\<lambda>(i, row). i = l) (zip (index t) (cells t))) ls)
         in Inr \<lparr>index = map fst sel, cols = cols t, cells = map snd sel\<rparr>)
      else Inl (KeyError RowLabels))"

text \<open>\<open>t.loc[:, labels]\<close>: the same selection on the columns.\<close>

definition loc_cols :: "label list \<Rightarrow> 'a frame \<Rightarrow> error + 'a frame" where
  "loc_cols ls t =
     (if \<forall>l \<in> set ls. l \<in> set (cols t) then
        (let sel = concat (map (\<lambda>l. filter (\<lambda>(c, j). c = l) (zip (cols t) [0..<length (cols t)])) ls)
         in Inr \<lparr>index = index t, cols = map fst sel,
                 cells = map (\<lambda>row. map (\<lambda>(c, j). row ! j) sel) (cells t)\<rparr>)
      else Inl (KeyError ColumnLabels))"

text \<open>\<open>t * 100\<close> on floats.\<close>

fun fmul :: "float64 \<Rightarrow> real \<Rightarrow> float64" where
  "fmul (Fin v) k = Fin (v * k)"
| "fmul PosInf k = (if 0 < k then PosInf else if k < 0 then NegInf else NaN)"
| "fmul NegInf k = (if 0 < k then NegInf else if k < 0 then PosInf else NaN)"
| "fmul NaN k = NaN"

definition mul :: "float64 frame \<Rightarrow> real \<Rightarrow> float64 frame" where
  "mul t k = \<lparr>index = index t, cols = cols t, cells = map (map (\<lambda>v. fmul v k)) (cells t)\<rparr>"

subsection \<open>The function\<close>

definition quick_crosstab ::
  "dataframe \<Rightarrow> metadata \<Rightarrow> string \<Rightarrow> string \<Rightarrow> weights \<Rightarrow> error + float64 frame" where
  "quick_crosstab df meta x y weights =
     (case getitem df x of Inl e \<Rightarrow> Inl e | Inr sx \<Rightarrow>
     (case value_labels_of meta x of Inl e \<Rightarrow> Inl e | Inr dx \<Rightarrow>
     (case getitem df y of Inl e \<Rightarrow> Inl e | Inr sy \<Rightarrow>
     (case value_labels_of meta y of Inl e \<Rightarrow> Inl e | Inr dy \<Rightarrow>
     (case crosstab (map_series sx dx) (map_series sy dy) weights of Inl e \<Rightarrow> Inl e | Inr t \<Rightarrow>
     (case loc_rows (dict_values dx) t of Inl e \<Rightarrow> Inl e | Inr t1 \<Rightarrow>
     (case loc_cols (dict_values dy) t1 of Inl e \<Rightarrow> Inl e | Inr t2 \<Rightarrow>
      Inr (mul t2 100))))))))"

text \<open>
  The aggregated data of a call: the table \<open>pivot_table\<close> returns inside
  \<open>pd.crosstab\<close>, before the normalization.
\<close>

definition aggregated ::
  "dataframe \<Rightarrow> metadata \<Rightarrow> string \<Rightarrow> string \<Rightarrow> weights \<Rightarrow> error + real option frame" where
  "aggregated df meta x y weights =
     (case getitem df x of Inl e \<Rightarrow> Inl e | Inr sx \<Rightarrow>
     (case value_labels_of meta x of Inl e \<Rightarrow> Inl e | Inr dx \<Rightarrow>
     (case getitem df y of Inl e \<Rightarrow> Inl e | Inr sy \<Rightarrow>
     (case value_labels_of meta y of Inl e \<Rightarrow> Inl e | Inr dy \<Rightarrow>
     (case set_values (zip (map_series sx dx) (map_series sy dy)) weights of Inl e \<Rightarrow> Inl e
      | Inr ds \<Rightarrow> Inr (pivot_table ds))))))"

subsection \<open>The names of the notebook\<close>

text \<open>
  The cells of the notebook are top-level statements run in the kernel's namespace. For
  the names they read and bind, an expression is a name, an attribute of an expression,
  a constant, or a call; Python evaluates a call's function expression first, then its
  arguments from left to right, and a name that is not bound raises \<open>NameError\<close>.
  Only the names are modelled: what the pandas, pyreadstat and seaborn calls compute is
  not, and neither are the names a function body reads when it is called.
\<close>

datatype expr = Name string | Attribute expr string | Constant | Call expr "expr list"

datatype stmt =
  Import string string
| Assign "string list" expr
| FunctionDef string
| Expr expr

text \<open>The names an expression reads, in evaluation order.\<close>

fun names_read :: "expr \<Rightarrow> string list" where
  "names_read (Name n) = [n]"
| "names_read (Attribute e a) = names_read e"
| "names_read Constant = []"
| "names_read (Call f args) = names_read f @ concat (map names_read args)"

definition eval_names :: "string list \<Rightarrow> expr \<Rightarrow> error + unit" where
  "eval_names env e =
     (case filter (\<lambda>n. n \<notin> set env) (names_read e) of
        [] \<Rightarrow> Inr ()
      | n # _ \<Rightarrow> Inl (NameError n))"

fun exec :: "string list \<Rightarrow> stmt \<Rightarrow> error + string list" where
  "exec env (Import m alias) = Inr (alias # env)"
| "exec env (Assign targets e) =
     (case eval_names env e of Inl err \<Rightarrow> Inl err | Inr _ \<Rightarrow> Inr (targets @ env))"
| "exec env (FunctionDef f) = Inr (f # env)"
| "exec env (Expr e) =
     (case eval_names env e of Inl err \<Rightarrow> Inl err | Inr _ \<Rightarrow> Inr env)"

fun run :: "string list \<Rightarrow> stmt list \<Rightarrow> error + string list" where
  "run env [] = Inr env"
| "run env (s # ss) = (case exec env s of Inl err \<Rightarrow> Inl err | Inr env' \<Rightarrow> run env' ss)"

text \<open>The code cells of the notebook, in order.\<close>

definition cell_imports :: "stmt list" where
  "cell_imports =
     [Import ''pandas'' ''pd'', Import ''pyreadstat'' ''pyreadstat'', Import ''numpy'' ''np'',
      Import ''matplotlib.pyplot'' ''plt'', Import ''seaborn'' ''sns'']"

definition cell_read :: "stmt list" where
  "cell_read =
     [Assign [''df15'', ''meta15''] (Call (Attribute (Name ''pyreadstat'') ''read_sav'') [Constant]),
      Assign [''df18'', ''meta18''] (Call (Attribute (Name ''pyreadstat'') ''read_sav'') [Constant])]"

definition cell_def :: "stmt list" where
  "cell_def = [FunctionDef ''quick_crosstab'']"

definition crosstab15 :: "string \<Rightarrow> stmt" where
  "crosstab15 target =
     Assign [target]
       (Call (Name ''quick_crosstab'')
          [Name ''df15'', Name ''meta15'', Constant, Name ''demo'',
           Attribute (Name ''df15'') ''weights''])"

definition cell_crosstabs :: "stmt list" where
  "cell_crosstabs =
     [Assign [''demo''] Constant,
      crosstab15 ''ct15_whites'', crosstab15 ''ct15_blacks'', crosstab15 ''ct15_asians'']"

definition heatmap :: "string \<Rightarrow> stmt list" where
  "heatmap table =
     [Expr (Call (Attribute (Name ''sns'') ''heatmap'') [Name table, Constant]),
      Expr (Call (Attribute (Name ''plt'') ''title'') [Constant])]"

definition ct18_voting :: stmt where
  "ct18_voting =
     Assign [''ct18_voting'']
       (Call (Attribute (Name ''pt'') ''quick_crosstab'')
          [Name ''df18'', Name ''meta18'', Constant, Constant,
           Attribute (Name ''df18'') ''weight''])"

definition notebook :: "stmt list" where
  "notebook =
     cell_imports @ cell_read @ cell_def @ cell_crosstabs @
     heatmap ''ct15_whites'' @ heatmap ''ct15_blacks'' @ heatmap ''ct15_asians'' @
     [ct18_voting]"

subsection \<open>Notions of the specification\<close>

text \<open>A missing weight counts as 0 in a sum.\<close>

definition nz :: "real option \<Rightarrow> real" where
  "nz w = (case w of None \<Rightarrow> 0 | Some v \<Rightarrow> v)"

fun weight_values :: "weights \<Rightarrow> real option list" where
  "weight_values (Series s) = map snd s"
| "weight_values (Array vs) = vs"

text \<open>A valid weight vector has no negative weight.\<close>

definition nonneg :: "weights \<Rightarrow> bool" where
  "nonneg w = list_all (\<lambda>v. 0 \<le> nz v) (weight_values w)"





text \<open>Column \<open>j\<close> of a table, top to bottom.\<close>

definition column :: "'a frame \<Rightarrow> nat \<Rightarrow> 'a list" where
  "column t j = map (\<lambda>row. row ! j) (cells t)"

text \<open>
  For the proofs: the sorted labels of grouped rows, the weights of one column label,
  and the percentage the call puts in a cell.
\<close>

definition row_labels :: "(label \<times> label \<times> real option) list \<Rightarrow> label list" where
  "row_labels g = sort (remdups (map (\<lambda>(r, c, w). r) g))"

definition col_labels :: "(label \<times> label \<times> real option) list \<Rightarrow> label list" where
  "col_labels g = sort (remdups (map (\<lambda>(r, c, w). c) g))"

definition col_weights :: "(label \<times> label \<times> real option) list \<Rightarrow> label \<Rightarrow> real option list" where
  "col_weights g c = map (\<lambda>(r', c', w). w) (filter (\<lambda>(r', c', w). c' = c) g)"

definition pct :: "(label \<times> label \<times> real option) list \<Rightarrow> label \<Rightarrow> label \<Rightarrow> float64" where
  "pct g r c = fmul (fillna0 (fdiv (agg g r c) (nansum (col_weights g c)))) 100"

subsection \<open>The example of the specification\<close>

text \<open>
  Rows \<open>{x:1, y:'A', w:2}\<close>, \<open>{x:2, y:'A', w:2}\<close>, \<open>{x:1, y:'B', w:5}\<close>; the label map
  of \<open>x\<close> is \<open>{1:'Yes', 2:'No'}\<close> and \<open>y\<close> is mapped to itself; the weights are the
  column \<open>w\<close>.
\<close>

definition survey_row :: "raw \<Rightarrow> raw \<Rightarrow> raw \<Rightarrow> string \<Rightarrow> raw" where
  "survey_row a b c col =
     (if col = ''x'' then a else if col = ''y'' then b else if col = ''w'' then c else Missing)"

definition example_df :: dataframe where
  "example_df =
     \<lparr>columns = [''x'', ''y'', ''w''],
      rows = [survey_row (Num 1) (Str ''A'') (Num 2),
              survey_row (Num 2) (Str ''A'') (Num 2),
              survey_row (Num 1) (Str ''B'') (Num 5)]\<rparr>"

definition example_meta :: metadata where
  "example_meta =
     \<lparr>variable_value_labels =
        map_of [(''x'', [(Num 1, ''Yes''), (Num 2, ''No'')]),
                (''y'', [(Str ''A'', ''A''), (Str ''B'', ''B'')])]\<rparr>"

definition example_weights :: weights where
  "example_weights = Series [(0, Some 2), (1, Some 2), (2, Some 5)]"

subsection \<open>Further inputs and tables of the examples\<close>

text \<open>
  The cell of a table at a row label and a column label (the first row and column that
  carry them), or nothing when a label is absent.
\<close>

definition cell :: "'a frame \<Rightarrow> label \<Rightarrow> label \<Rightarrow> 'a option" where
  "cell t r c =
     (case map_of (zip (index t) (cells t)) r of
        None \<Rightarrow> None
      | Some row \<Rightarrow> map_of (zip (cols t) row) c)"

text \<open>The table of the example, and variants of its weights and label maps.\<close>

definition example_table :: "float64 frame" where
  "example_table =
     \<lparr>index = [''Yes'', ''No''], cols = [''A'', ''B''],
      cells = [[Fin 50, Fin 100], [Fin 50, Fin 0]]\<rparr>"

definition zero_weights :: weights where
  "zero_weights = Array [Some 2, Some 2, Some 0]"

definition zero_aggregate :: "real option frame" where
  "zero_aggregate =
     \<lparr>index = [''No'', ''Yes''], cols = [''A'', ''B''],
      cells = [[Some 2, None], [Some 2, Some 0]]\<rparr>"

definition zero_table :: "float64 frame" where
  "zero_table =
     \<lparr>index = [''Yes'', ''No''], cols = [''A'', ''B''],
      cells = [[Fin 50, Fin 0], [Fin 50, Fin 0]]\<rparr>"

definition idle_weights :: weights where
  "idle_weights = Series [(0, Some 1), (1, Some 3), (2, Some 0)]"

definition idle_aggregate :: "real option frame" where
  "idle_aggregate =
     \<lparr>index = [''No'', ''Yes''], cols = [''A'', ''B''],
      cells = [[Some 3, None], [Some 1, Some 0]]\<rparr>"

definition idle_table :: "float64 frame" where
  "idle_table =
     \<lparr>index = [''Yes'', ''No''], cols = [''A'', ''B''],
      cells = [[Fin 25, Fin 0], [Fin 75, Fin 0]]\<rparr>"

definition wide_meta :: metadata where
  "wide_meta =
     \<lparr>variable_value_labels =
        map_of [(''x'', [(Num 1, ''Yes''), (Num 2, ''No''), (Num 3, ''Maybe'')]),
                (''y'', [(Str ''A'', ''A''), (Str ''B'', ''B'')])]\<rparr>"

definition narrow_meta :: metadata where
  "narrow_meta =
     \<lparr>variable_value_labels =
        map_of [(''x'', [(Num 1, ''Yes'')]),
                (''y'', [(Str ''A'', ''A''), (Str ''B'', ''B'')])]\<rparr>"

definition merged_meta :: metadata where
  "merged_meta =
     \<lparr>variable_value_labels =
        map_of [(''x'', [(Num 1, ''Yes''), (Num 2, ''Yes'')]),
                (''y'', [(Str ''A'', ''A''), (Str ''B'', ''B'')])]\<rparr>"

definition short_weights :: weights where
  "short_weights = Series [(0, Some 2), (1, Some 2)]"

definition long_weights :: weights where
  "long_weights = Series [(0, Some 2), (1, Some 2), (2, Some 5), (3, Some 7)]"

text \<open>Weights for the first and the last row only, the last row's first.\<close>

definition shuffled_weights :: weights where
  "shuffled_weights = Series [(2, Some 5), (0, Some 2)]"

text \<open>
  The weights a Series gives to the rows \<open>0, ..., n - 1\<close> by their labels, as a plain
  sequence: the value at the label of the row, missing where the Series has no such
  label.
\<close>

definition aligned :: "(nat \<times> real option) list \<Rightarrow> nat \<Rightarrow> real option list" where
  "aligned s n = map (\<lambda>i. case map_of s i of None \<Rightarrow> None | Some v \<Rightarrow> v) [0..<n]"

section \<open>Properties\<close>

subsection \<open>The operations on a table given by a cell function\<close>

lemma nansum_sum_list: "nansum ws = sum_list (map nz ws)"
  by (induction ws rule: nansum.induct) (simp_all add: nz_def)


lemma pivot_table_eq:
  "pivot_table ds =
     \<lparr>index = sort (remdups (map (\<lambda>(r, c, w). r) (groupby ds))),
      cols = sort (remdups (map (\<lambda>(r, c, w). c) (groupby ds))),
      cells = map (\<lambda>r. map (\<lambda>c. agg (groupby ds) r c)
                 (sort (remdups (map (\<lambda>(r, c, w). c) (groupby ds)))))
                (sort (remdups (map (\<lambda>(r, c, w). r) (groupby ds))))\<rparr>"
  by (simp add: pivot_table_def Let_def)

lemma column_sum_fun:
  "j < length cs \<Longrightarrow>
   column_sum \<lparr>index = rs, cols = cs, cells = map (\<lambda>r. map (f r) cs) rs\<rparr> j
     = nansum (map (\<lambda>r. f r (cs ! j)) rs)"
  by (simp add: column_sum_def comp_def)

lemma map2_same: "map2 h (map a cs) (map b cs) = map (\<lambda>c. h (a c) (b c)) cs"
  by (induction cs) simp_all

lemma totals_fun:
  "map (column_sum \<lparr>index = rs, cols = cs, cells = map (\<lambda>r. map (f r) cs) rs\<rparr>) [0..<length cs]
     = map (\<lambda>c. nansum (map (\<lambda>r. f r c) rs)) cs"
  by (rule nth_equalityI) (simp_all add: column_sum_fun)

lemma normalize_columns_fun:
  "normalize_columns \<lparr>index = rs, cols = cs, cells = map (\<lambda>r. map (f r) cs) rs\<rparr>
     = \<lparr>index = rs, cols = cs,
        cells = map (\<lambda>r. map (\<lambda>c. fillna0 (fdiv (f r c) (nansum (map (\<lambda>r. f r c) rs)))) cs) rs\<rparr>"
  unfolding normalize_columns_def Let_def
  apply (simp only: frame.simps totals_fun)
  apply (simp add: map2_same comp_def)
  done

lemma filter_zip_distinct:
  "distinct rs \<Longrightarrow> l \<in> set rs \<Longrightarrow>
   filter (\<lambda>(i, row). i = l) (zip rs (map g rs)) = [(l, g l)]"
  by (induction rs) (auto simp: filter_empty_conv dest: set_zip_leftD)

lemma loc_rows_fun:
  assumes "distinct rs" and "set ls \<subseteq> set rs"
  shows "loc_rows ls \<lparr>index = rs, cols = cs, cells = map g rs\<rparr>
           = Inr \<lparr>index = ls, cols = cs, cells = map g ls\<rparr>"
proof -
  have "concat (map (\<lambda>l. filter (\<lambda>(i, row). i = l) (zip rs (map g rs))) ls)
          = map (\<lambda>l. (l, g l)) ls"
    using assms(2) by (induction ls) (simp_all add: filter_zip_distinct [OF assms(1)])
  then show ?thesis
    using assms(2) by (auto simp: loc_rows_def comp_def)
qed

lemma loc_rows_KeyError:
  "\<not> set ls \<subseteq> set (index t) \<Longrightarrow> loc_rows ls t = Inl (KeyError RowLabels)"
  by (auto simp: loc_rows_def)

lemma filter_zip_upt_distinct:
  "distinct cs \<Longrightarrow> j < length cs \<Longrightarrow>
   filter (\<lambda>(c, k). c = cs ! j) (zip cs [0..<length cs]) = [(cs ! j, j)]"
proof (induction cs arbitrary: j rule: rev_induct)
  case Nil
  then show ?case by simp
next
  case (snoc a cs)
  show ?case
  proof (cases "j < length cs")
    case True
    with snoc show ?thesis by (auto simp: nth_append)
  next
    case False
    with snoc.prems have j: "j = length cs" by simp
    have "filter (\<lambda>(c, k). c = a) (zip cs [0..<length cs]) = []"
      using snoc.prems(1) by (auto simp: filter_empty_conv dest: set_zip_leftD)
    with j show ?thesis by simp
  qed
qed

lemma loc_cols_fun:
  assumes "distinct cs" and "set ls \<subseteq> set cs"
  shows "loc_cols ls \<lparr>index = rs, cols = cs, cells = map (\<lambda>r. map (f r) cs) rs\<rparr>
           = Inr \<lparr>index = rs, cols = ls, cells = map (\<lambda>r. map (f r) ls) rs\<rparr>"
proof -
  define pos where "pos l = (THE j. j < length cs \<and> cs ! j = l)" for l
  have pos: "pos l < length cs \<and> cs ! pos l = l" if "l \<in> set cs" for l
  proof -
    from that obtain j where j: "j < length cs" "cs ! j = l" by (auto simp: in_set_conv_nth)
    have "\<exists>!j. j < length cs \<and> cs ! j = l"
      using j assms(1) by (auto simp: distinct_conv_nth)
    then show ?thesis unfolding pos_def by (rule theI')
  qed
  have one: "filter (\<lambda>(c, k). c = l) (zip cs [0..<length cs]) = [(l, pos l)]" if "l \<in> set cs" for l
    using filter_zip_upt_distinct [OF assms(1), of "pos l"] pos [OF that] by simp
  have sel: "concat (map (\<lambda>l. filter (\<lambda>(c, k). c = l) (zip cs [0..<length cs])) ls)
          = map (\<lambda>l. (l, pos l)) ls"
    using assms(2) by (induction ls) (simp_all add: one)
  have cell: "map (\<lambda>(c, j). map (f r) cs ! j) (map (\<lambda>l. (l, pos l)) ls) = map (f r) ls" for r
    using assms(2) pos by (induction ls) auto
  show ?thesis
    using assms(2) pos by (auto simp: loc_cols_def sel comp_def)
qed

lemma loc_cols_KeyError:
  "\<not> set ls \<subseteq> set (cols t) \<Longrightarrow> loc_cols ls t = Inl (KeyError ColumnLabels)"
  by (auto simp: loc_cols_def)

lemma mul_fun:
  "mul \<lparr>index = rs, cols = cs, cells = map (\<lambda>r. map (f r) cs) rs\<rparr> k
     = \<lparr>index = rs, cols = cs, cells = map (\<lambda>r. map (\<lambda>c. fmul (f r c) k) cs) rs\<rparr>"
  by (simp add: mul_def comp_def)


lemma distinct_row_labels [simp]: "distinct (row_labels g)"
  by (simp add: row_labels_def)

lemma distinct_col_labels [simp]: "distinct (col_labels g)"
  by (simp add: col_labels_def)

lemma set_row_labels [simp]: "set (row_labels g) = (\<lambda>(r, c, w). r) ` set g"
  by (simp add: row_labels_def)

lemma set_col_labels [simp]: "set (col_labels g) = (\<lambda>(r, c, w). c) ` set g"
  by (simp add: col_labels_def)

lemma pivot_table_labels:
  "pivot_table ds =
     \<lparr>index = row_labels (groupby ds), cols = col_labels (groupby ds),
      cells = map (\<lambda>r. map (\<lambda>c. agg (groupby ds) r c) (col_labels (groupby ds)))
                (row_labels (groupby ds))\<rparr>"
  by (simp add: pivot_table_eq row_labels_def col_labels_def)

lemma nz_agg: "nz (agg g r c) = nansum (group_weights g r c)"
  by (simp add: agg_def nz_def)

lemma sum_list_delta:
  "distinct rs \<Longrightarrow> sum_list (map (\<lambda>r. if r = a then (v::real) else 0) rs) = (if a \<in> set rs then v else 0)"
  by (induction rs) auto

lemma sum_groups:
  "distinct rs \<Longrightarrow> (\<lambda>(r, c, w). r) ` set g \<subseteq> set rs \<Longrightarrow>
   sum_list (map (\<lambda>r. nansum (group_weights g r c)) rs) = nansum (col_weights g c)"
proof (induction g)
  case Nil
  then show ?case by (simp add: group_weights_def col_weights_def)
next
  case (Cons a g)
  obtain r0 c0 w0 where a: "a = (r0, c0, w0)" by (cases a)
  from Cons.prems have r0: "r0 \<in> set rs" and sub: "(\<lambda>(r, c, w). r) ` set g \<subseteq> set rs"
    by (auto simp: a)
  have step: "nansum (group_weights (a # g) r c) = (if r = r0 then (if c0 = c then nz w0 else 0) else 0) + nansum (group_weights g r c)" for r
    by (auto simp: group_weights_def a nansum_sum_list)
  have "sum_list (map (\<lambda>r. nansum (group_weights (a # g) r c)) rs)
      = sum_list (map (\<lambda>r. if r = r0 then (if c0 = c then nz w0 else 0) else 0) rs)
        + sum_list (map (\<lambda>r. nansum (group_weights g r c)) rs)"
    by (simp add: step sum_list_addf)
  also have "\<dots> = (if c0 = c then nz w0 else 0) + nansum (col_weights g c)"
    using Cons.IH [OF Cons.prems(1) sub] r0 by (simp add: sum_list_delta [OF Cons.prems(1)])
  also have "\<dots> = nansum (col_weights (a # g) c)"
    by (simp add: col_weights_def a nansum_sum_list)
  finally show ?case .
qed

lemma column_total:
  "nansum (map (\<lambda>r. agg g r c) (row_labels g)) = nansum (col_weights g c)"
proof -
  have "nansum (map (\<lambda>r. agg g r c) (row_labels g)) = sum_list (map (\<lambda>r. nansum (group_weights g r c)) (row_labels g))"
    by (simp add: nansum_sum_list comp_def nz_agg)
  then show ?thesis by (simp add: sum_groups)
qed

lemma crosstab_fun:
  assumes "set_values (zip idx cls) w = Inr ds"
  shows "crosstab idx cls w =
     Inr \<lparr>index = row_labels (groupby ds), cols = col_labels (groupby ds),
          cells = map (\<lambda>r. map (\<lambda>c. fillna0 (fdiv (agg (groupby ds) r c) (nansum (col_weights (groupby ds) c))))
                    (col_labels (groupby ds))) (row_labels (groupby ds))\<rparr>"
  by (simp add: crosstab_def assms pivot_table_labels normalize_columns_fun column_total)

lemma quick_crosstab_eq:
  assumes "getitem df x = Inr sx" and "value_labels_of meta x = Inr dx"
    and "getitem df y = Inr sy" and "value_labels_of meta y = Inr dy"
    and "set_values (zip (map_series sx dx) (map_series sy dy)) w = Inr ds"
  shows "quick_crosstab df meta x y w =
     (if \<not> set (dict_values dx) \<subseteq> set (row_labels (groupby ds)) then Inl (KeyError RowLabels)
      else if \<not> set (dict_values dy) \<subseteq> set (col_labels (groupby ds)) then Inl (KeyError ColumnLabels)
      else Inr \<lparr>index = dict_values dx, cols = dict_values dy,
                cells = map (\<lambda>r. map (\<lambda>c. pct (groupby ds) r c) (dict_values dy)) (dict_values dx)\<rparr>)"
proof -
  let ?g = "groupby ds"
  let ?t = "\<lparr>index = row_labels ?g, cols = col_labels ?g,
          cells = map (\<lambda>r. map (\<lambda>c. fillna0 (fdiv (agg ?g r c) (nansum (col_weights ?g c))))
                    (col_labels ?g)) (row_labels ?g)\<rparr>"
  have q: "quick_crosstab df meta x y w =
     (case loc_rows (dict_values dx) ?t of Inl e \<Rightarrow> Inl e | Inr t1 \<Rightarrow>
     (case loc_cols (dict_values dy) t1 of Inl e \<Rightarrow> Inl e | Inr t2 \<Rightarrow> Inr (mul t2 100)))"
    by (simp add: quick_crosstab_def assms(1-4) crosstab_fun [OF assms(5)])
  show ?thesis
  proof (cases "set (dict_values dx) \<subseteq> set (row_labels ?g)")
    case False
    then have "loc_rows (dict_values dx) ?t = Inl (KeyError RowLabels)"
      by (intro loc_rows_KeyError) simp
    with False show ?thesis by (simp add: q)
  next
    case rows: True
    have l1: "loc_rows (dict_values dx) ?t =
        Inr \<lparr>index = dict_values dx, cols = col_labels ?g,
          cells = map (\<lambda>r. map (\<lambda>c. fillna0 (fdiv (agg ?g r c) (nansum (col_weights ?g c))))
                    (col_labels ?g)) (dict_values dx)\<rparr>"
      by (rule loc_rows_fun) (use rows in simp_all)
    show ?thesis
    proof (cases "set (dict_values dy) \<subseteq> set (col_labels ?g)")
      case False
      then have "loc_cols (dict_values dy) \<lparr>index = dict_values dx, cols = col_labels ?g,
          cells = map (\<lambda>r. map (\<lambda>c. fillna0 (fdiv (agg ?g r c) (nansum (col_weights ?g c))))
                    (col_labels ?g)) (dict_values dx)\<rparr> = Inl (KeyError ColumnLabels)"
        by (intro loc_cols_KeyError) simp
      with False rows show ?thesis by (simp add: q l1)
    next
      case True
      have l2: "loc_cols (dict_values dy) \<lparr>index = dict_values dx, cols = col_labels ?g,
          cells = map (\<lambda>r. map (\<lambda>c. fillna0 (fdiv (agg ?g r c) (nansum (col_weights ?g c))))
                    (col_labels ?g)) (dict_values dx)\<rparr> =
         Inr \<lparr>index = dict_values dx, cols = dict_values dy,
          cells = map (\<lambda>r. map (\<lambda>c. fillna0 (fdiv (agg ?g r c) (nansum (col_weights ?g c))))
                    (dict_values dy)) (dict_values dx)\<rparr>"
        by (rule loc_cols_fun) (use True in simp_all)
      from rows True show ?thesis
        by (simp add: q l1 l2 mul_fun pct_def)
    qed
  qed
qed

subsection \<open>The steps of a call\<close>

lemma aggregated_eq:
  assumes "getitem df x = Inr sx" and "value_labels_of meta x = Inr dx"
    and "getitem df y = Inr sy" and "value_labels_of meta y = Inr dy"
    and "set_values (zip (map_series sx dx) (map_series sy dy)) w = Inr ds"
  shows "aggregated df meta x y w = Inr (pivot_table ds)"
  by (simp add: aggregated_def assms)

lemma aggregated_InrD:
  assumes "aggregated df meta x y w = Inr a"
  obtains sx dx sy dy ds where "getitem df x = Inr sx" and "value_labels_of meta x = Inr dx"
    and "getitem df y = Inr sy" and "value_labels_of meta y = Inr dy"
    and "set_values (zip (map_series sx dx) (map_series sy dy)) w = Inr ds"
    and "a = pivot_table ds"
  using assms unfolding aggregated_def by (auto split: sum.splits)


lemma quick_crosstab_aggregated_Inl:
  "aggregated df meta x y w = Inl e \<Longrightarrow> quick_crosstab df meta x y w = Inl e"
  unfolding aggregated_def quick_crosstab_def crosstab_def by (auto split: sum.splits)

subsection \<open>The examples, evaluated\<close>

lemma example_value:
  "quick_crosstab example_df example_meta ''x'' ''y'' example_weights =
     Inr \<lparr>index = [''Yes'', ''No''], cols = [''A'', ''B''],
          cells = [[Fin 50, Fin 100], [Fin 50, Fin 0]]\<rparr>"
  by code_simp

lemma example_aggregated:
  "aggregated example_df example_meta ''x'' ''y'' example_weights =
     Inr \<lparr>index = [''No'', ''Yes''], cols = [''A'', ''B''],
          cells = [[Some 2, None], [Some 2, Some 5]]\<rparr>"
  by code_simp

lemma example_labels:
  "value_labels_of example_meta ''x'' = Inr [(Num 1, ''Yes''), (Num 2, ''No'')]"
  "value_labels_of example_meta ''y'' = Inr [(Str ''A'', ''A''), (Str ''B'', ''B'')]"
  by (simp_all add: value_labels_of_def example_meta_def)

lemma zero_value:
  "quick_crosstab example_df example_meta ''x'' ''y'' zero_weights = Inr zero_table"
  by code_simp

lemma zero_aggregated:
  "aggregated example_df example_meta ''x'' ''y'' zero_weights = Inr zero_aggregate"
  by code_simp

lemma idle_value:
  "quick_crosstab example_df example_meta ''x'' ''y'' idle_weights = Inr idle_table"
  by code_simp

lemma idle_aggregated:
  "aggregated example_df example_meta ''x'' ''y'' idle_weights = Inr idle_aggregate"
  by code_simp

lemma wide_aggregated:
  "aggregated example_df wide_meta ''x'' ''y'' example_weights =
     Inr \<lparr>index = [''No'', ''Yes''], cols = [''A'', ''B''],
          cells = [[Some 2, None], [Some 2, Some 5]]\<rparr>"
  by code_simp

lemma wide_labels:
  "value_labels_of wide_meta ''x'' = Inr [(Num 1, ''Yes''), (Num 2, ''No''), (Num 3, ''Maybe'')]"
  "value_labels_of wide_meta ''y'' = Inr [(Str ''A'', ''A''), (Str ''B'', ''B'')]"
  by (simp_all add: value_labels_of_def wide_meta_def)

lemma narrow_value:
  "quick_crosstab example_df narrow_meta ''x'' ''y'' example_weights =
     Inr \<lparr>index = [''Yes''], cols = [''A'', ''B''], cells = [[Fin 100, Fin 100]]\<rparr>"
  by code_simp

lemma narrow_aggregated:
  "aggregated example_df narrow_meta ''x'' ''y'' example_weights =
     Inr \<lparr>index = [''Yes''], cols = [''A'', ''B''], cells = [[Some 2, Some 5]]\<rparr>"
  by code_simp

lemma merged_value:
  "quick_crosstab example_df merged_meta ''x'' ''y'' example_weights =
     Inr \<lparr>index = [''Yes'', ''Yes''], cols = [''A'', ''B''],
          cells = [[Fin 100, Fin 100], [Fin 100, Fin 100]]\<rparr>"
  by code_simp

lemma short_value:
  "quick_crosstab example_df example_meta ''x'' ''y'' short_weights =
     Inr \<lparr>index = [''Yes'', ''No''], cols = [''A'', ''B''],
          cells = [[Fin 50, Fin 0], [Fin 50, Fin 0]]\<rparr>"
  by code_simp

lemma long_value:
  "quick_crosstab example_df example_meta ''x'' ''y'' long_weights = Inr example_table"
  by code_simp

subsection \<open>Keys, weights and percentages of the grouped rows\<close>

lemma groupby_iff: "(r, c, v) \<in> set (groupby ds) \<longleftrightarrow> (Some r, Some c, v) \<in> set ds"
  by (induction ds rule: groupby.induct) auto

lemma set_values_keys:
  assumes "set_values ks w = Inr ds" and "(Some r, Some c, v) \<in> set ds"
  shows "(Some r, Some c) \<in> set ks"
proof (cases w)
  case (Array vs)
  with assms show ?thesis
    by (auto split: if_splits dest!: set_zip_leftD)
next
  case (Series s)
  with assms show ?thesis
    by (auto split: if_splits dest!: set_zip_leftD)
qed

lemma set_values_weights:
  assumes "set_values ks w = Inr ds" and "(r, c, v) \<in> set ds"
  shows "v = None \<or> v \<in> set (weight_values w)"
proof (cases w)
  case (Array vs)
  with assms show ?thesis
    by (auto split: if_splits dest!: set_zip_rightD)
next
  case (Series s)
  with assms show ?thesis
    by (auto split: if_splits option.splits dest!: set_zip_rightD map_of_SomeD
        simp: rev_image_eqI)
qed

lemma observed_labels:
  assumes "(Some r, Some c) \<in> set (zip (map_series sx dx) (map_series sy dy))"
  shows "r \<in> set (dict_values dx)" and "c \<in> set (dict_values dy)"
proof -
  from assms have "Some r \<in> set (map_series sx dx)" and "Some c \<in> set (map_series sy dy)"
    by (auto dest: set_zip_leftD set_zip_rightD)
  then show "r \<in> set (dict_values dx)" and "c \<in> set (dict_values dy)"
    by (auto simp: map_series_def dict_values_def rev_image_eqI dest!: sym [of "Some _"] map_of_SomeD)
qed

lemma grouped_labels:
  assumes "set_values (zip (map_series sx dx) (map_series sy dy)) w = Inr ds"
  shows "(\<lambda>(r, c, v). r) ` set (groupby ds) \<subseteq> set (dict_values dx)"
    and "(\<lambda>(r, c, v). c) ` set (groupby ds) \<subseteq> set (dict_values dy)"
proof -
  have both: "r \<in> set (dict_values dx) \<and> c \<in> set (dict_values dy)"
    if "(r, c, v) \<in> set (groupby ds)" for r c v
  proof -
    from that have "(Some r, Some c, v) \<in> set ds" by (simp add: groupby_iff)
    from set_values_keys [OF assms this] show ?thesis
      by (simp add: observed_labels)
  qed
  show "(\<lambda>(r, c, v). r) ` set (groupby ds) \<subseteq> set (dict_values dx)"
    using both by auto
  show "(\<lambda>(r, c, v). c) ` set (groupby ds) \<subseteq> set (dict_values dy)"
    using both by auto
qed

lemma grouped_nonneg:
  assumes "set_values ks w = Inr ds" and "nonneg w" and "(r, c, v) \<in> set (groupby ds)"
  shows "0 \<le> nz v"
proof -
  from assms(3) have "(Some r, Some c, v) \<in> set ds" by (simp add: groupby_iff)
  from set_values_weights [OF assms(1) this] assms(2) show ?thesis
    by (auto simp: nonneg_def list_all_iff nz_def)
qed

lemma pct_nonzero:
  "nansum (col_weights g c) \<noteq> 0 \<Longrightarrow>
   pct g r c = Fin (nansum (group_weights g r c) * (100 / nansum (col_weights g c)))"
  by (simp add: pct_def agg_def)

lemma set_group_subset: "set (group_weights g r c) \<subseteq> set (col_weights g c)"
  by (force simp: group_weights_def col_weights_def)

lemma nansum_zero:
  assumes "nansum ws = 0" and "\<forall>v \<in> set ws. 0 \<le> nz v" and "set us \<subseteq> set ws"
  shows "nansum us = 0"
proof -
  from assms(1,2) have "\<forall>v \<in> set ws. nz v = 0"
    using sum_list_nonneg_eq_0_iff [of "map nz ws"] by (auto simp: nansum_sum_list)
  with assms(3) have "\<forall>v \<in> set us. nz v = 0" by blast
  then show ?thesis by (induction us) (simp_all add: nansum_sum_list)
qed

lemma pct_zero:
  assumes "nansum (col_weights g c) = 0" and "\<forall>(r, c, v) \<in> set g. 0 \<le> nz v"
  shows "pct g r c = Fin 0"
proof -
  from assms(2) have "\<forall>v \<in> set (col_weights g c). 0 \<le> nz v"
    by (auto simp: col_weights_def)
  from nansum_zero [OF assms(1) this set_group_subset]
  have "nansum (group_weights g r c) = 0" .
  then show ?thesis by (simp add: pct_def agg_def assms(1))
qed

lemma column_fun:
  "j < length cs \<Longrightarrow>
   column \<lparr>index = rs, cols = cs, cells = map (\<lambda>r. map (f r) cs) rs\<rparr> j = map (\<lambda>r. f r (cs ! j)) rs"
  by (simp add: column_def)

lemma column_sum_aggregated:
  assumes "j < length (col_labels (groupby ds))"
  shows "column_sum (pivot_table ds) j = nansum (col_weights (groupby ds) (col_labels (groupby ds) ! j))"
  unfolding pivot_table_labels by (simp add: column_sum_fun [OF assms] column_total)

subsection \<open>Order of the labels (C2)\<close>


lemma crosstab_InrD:
  assumes "crosstab idx cls w = Inr ct"
  obtains ds where "set_values (zip idx cls) w = Inr ds"
  using assms by (auto simp: crosstab_def split: sum.splits)






subsection \<open>A label with no row (C3)\<close>

text \<open>
  Claim C3. When the aggregated data of a call exist and some label of the label
  sequence for \<open>x\<close> is not among their row labels, or some label of the sequence for
  \<open>y\<close> is not among their column labels, the call raises \<open>KeyError\<close> at the reorder
  step: at the selection of the rows when a row label is missing, otherwise at the
  selection of the columns. No table is returned.
\<close>

theorem missing_label_KeyError:
  assumes "aggregated df meta x y w = Inr a"
    and "value_labels_of meta x = Inr dx" and "value_labels_of meta y = Inr dy"
    and "(l \<in> set (dict_values dx) \<and> l \<notin> set (index a)) \<or>
         (l \<in> set (dict_values dy) \<and> l \<notin> set (cols a))"
  shows "quick_crosstab df meta x y w =
           Inl (KeyError (if set (dict_values dx) \<subseteq> set (index a) then ColumnLabels else RowLabels))"
proof -
  from assms(1) obtain sx dx' sy dy' ds where
    s: "getitem df x = Inr sx" "value_labels_of meta x = Inr dx'"
       "getitem df y = Inr sy" "value_labels_of meta y = Inr dy'"
       "set_values (zip (map_series sx dx') (map_series sy dy')) w = Inr ds"
    and a: "a = pivot_table ds"
    by (rule aggregated_InrD)
  from s assms(2,3) have d: "dx' = dx" "dy' = dy" by simp_all
  have ia: "index a = row_labels (groupby ds)" "cols a = col_labels (groupby ds)"
    by (simp_all add: a pivot_table_labels)
  from assms(4) show ?thesis
    unfolding quick_crosstab_eq [OF s] d ia by auto
qed

text \<open>
  With a third label \<open>Maybe\<close> in the label map of \<open>x\<close> and no row of that code, the
  call on the example raises at the selection of the rows.
\<close>

theorem missing_label_KeyError_witness:
  "''Maybe'' \<in> set (dict_values [(Num 1, ''Yes''), (Num 2, ''No''), (Num 3, ''Maybe'')]) \<and>
   ''Maybe'' \<notin> set [''No'', ''Yes''] \<and>
   quick_crosstab example_df wide_meta ''x'' ''y'' example_weights = Inl (KeyError RowLabels)"
proof -
  have m: "(''Maybe'' \<in> set (dict_values [(Num 1, ''Yes''), (Num 2, ''No''), (Num 3, ''Maybe'')]) \<and>
      ''Maybe'' \<notin> set (index \<lparr>index = [''No'', ''Yes''], cols = [''A'', ''B''],
          cells = [[Some (2::real), None], [Some 2, Some 5]]\<rparr>)) \<or>
     (''Maybe'' \<in> set (dict_values [(Str ''A'', ''A''), (Str ''B'', ''B'')]) \<and>
      ''Maybe'' \<notin> set (cols \<lparr>index = [''No'', ''Yes''], cols = [''A'', ''B''],
          cells = [[Some (2::real), None], [Some 2, Some 5]]\<rparr>))"
    by (simp add: dict_values_def)
  from missing_label_KeyError [OF wide_aggregated wide_labels m] show ?thesis
    by (simp add: dict_values_def)
qed

subsection \<open>The example scenario (C4)\<close>

text \<open>
  Claim C4, as amended. On the example the call returns the rows Yes, No and the
  columns A, B, with column \<open>A\<close>: Yes = 50, No = 50 and column \<open>B\<close>: Yes = 100; the
  cell (No, B), for which no row exists, is present and holds 0.
\<close>

theorem example_scenario:
  "quick_crosstab example_df example_meta ''x'' ''y'' example_weights = Inr example_table \<and>
   index example_table = [''Yes'', ''No''] \<and> cols example_table = [''A'', ''B''] \<and>
   cell example_table ''Yes'' ''A'' = Some (Fin 50) \<and>
   cell example_table ''No'' ''A'' = Some (Fin 50) \<and>
   cell example_table ''Yes'' ''B'' = Some (Fin 100) \<and>
   cell example_table ''No'' ''B'' = Some (Fin 0)"
  by (simp add: example_value example_table_def cell_def)

text \<open>
  The claim as the specification states it fails: the cell (No, B) is not
  not-a-number.
\<close>

theorem example_no_b_is_zero:
  "(case quick_crosstab example_df example_meta ''x'' ''y'' example_weights of
      Inl e \<Rightarrow> None | Inr t \<Rightarrow> cell t ''No'' ''B'') = Some (Fin 0) \<and> Fin 0 \<noteq> NaN"
  by (simp add: example_value cell_def)

text \<open>
  The returned table has the two cells of column \<open>B\<close>.
\<close>

theorem example_scenario_witness:
  "\<exists>t. quick_crosstab example_df example_meta ''x'' ''y'' example_weights = Inr t \<and>
       cell t ''Yes'' ''B'' = Some (Fin 100) \<and> cell t ''No'' ''B'' = Some (Fin 0)"
  using example_scenario by blast

subsection \<open>Rows with an unmapped code (C5)\<close>






lemma length_getitem: "getitem df c = Inr s \<Longrightarrow> length s = length (rows df)"
  by (auto simp: getitem_def split: if_splits)















subsection \<open>A column of zero total weight (C6)\<close>

text \<open>
  Claim C6, as amended. A column label of zero total weight raises nothing: when the
  aggregated data of a call exist and contain every label of the two label sequences,
  the call returns a table, and with no negative weight every cell of a column whose
  total weight is zero is 0. The not-a-number values of the division by zero are not
  propagated: \<open>pd.crosstab\<close> fills them with 0.
\<close>

theorem zero_weight_column:
  assumes ag: "aggregated df meta x y w = Inr a"
    and dx: "value_labels_of meta x = Inr dx" and dy: "value_labels_of meta y = Inr dy"
    and rows: "set (dict_values dx) \<subseteq> set (index a)"
    and cols: "set (dict_values dy) \<subseteq> set (cols a)"
    and nn: "nonneg w"
  shows "\<exists>t. quick_crosstab df meta x y w = Inr t \<and>
           (\<forall>j<length (cols t). \<forall>j'<length (cols a).
               cols a ! j' = cols t ! j \<and> column_sum a j' = 0 \<longrightarrow>
               column t j = replicate (length (index t)) (Fin 0))"
proof -
  from ag obtain sx dx' sy dy' ds where
    s: "getitem df x = Inr sx" "value_labels_of meta x = Inr dx'"
       "getitem df y = Inr sy" "value_labels_of meta y = Inr dy'"
       "set_values (zip (map_series sx dx') (map_series sy dy')) w = Inr ds"
    and a: "a = pivot_table ds"
    by (rule aggregated_InrD)
  from s(2,4) dx dy have d: "dx' = dx" "dy' = dy" by simp_all
  define g where "g = groupby ds"
  define t where "t = \<lparr>index = dict_values dx, cols = dict_values dy,
                cells = map (\<lambda>r. map (\<lambda>c. pct g r c) (dict_values dy)) (dict_values dx)\<rparr>"
  have ia: "index a = row_labels g" "cols a = col_labels g"
    by (simp_all add: a pivot_table_labels g_def)
  have q: "quick_crosstab df meta x y w = Inr t"
    unfolding quick_crosstab_eq [OF s] d t_def g_def using rows cols
    by (simp add: ia g_def)
  have nonneg_g: "\<forall>(r, c, v) \<in> set g. 0 \<le> nz v"
    using grouped_nonneg [OF s(5) nn] by (auto simp: g_def)
  have "column t j = replicate (length (index t)) (Fin 0)"
    if j: "j < length (cols t)" and j': "j' < length (cols a)"
      and same: "cols a ! j' = cols t ! j" and zero: "column_sum a j' = 0" for j j'
  proof -
    from j have jy: "j < length (dict_values dy)" by (simp add: t_def)
    from j' have "j' < length (col_labels (groupby ds))" by (simp add: ia g_def)
    from column_sum_aggregated [OF this] zero same
    have "nansum (col_weights g (dict_values dy ! j)) = 0"
      by (simp add: a [symmetric] g_def [symmetric] ia [symmetric] t_def)
    from pct_zero [OF this nonneg_g] have "pct g r (dict_values dy ! j) = Fin 0" for r .
    moreover have "column t j = map (\<lambda>r. pct g r (dict_values dy ! j)) (dict_values dx)"
      unfolding t_def by (rule column_fun [OF jy])
    moreover have "length (index t) = length (dict_values dx)" by (simp add: t_def)
    ultimately show ?thesis by (simp add: map_replicate_const)
  qed
  with q show ?thesis by blast
qed

text \<open>
  The claim as the specification states it fails: with weights 1, 3, 0, column \<open>B\<close>
  has total weight zero, the call returns, and no cell of the table is not-a-number.
\<close>

theorem zero_weight_column_counterexample:
  "aggregated example_df example_meta ''x'' ''y'' idle_weights = Inr idle_aggregate \<and>
   cols idle_aggregate ! 1 = ''B'' \<and> column_sum idle_aggregate 1 = 0 \<and>
   quick_crosstab example_df example_meta ''x'' ''y'' idle_weights = Inr idle_table \<and>
   cols idle_table ! 1 = ''B'' \<and> column idle_table 1 = [Fin 0, Fin 0] \<and>
   NaN \<notin> set (concat (cells idle_table))"
  by (simp add: idle_value idle_aggregated)
     (simp add: idle_aggregate_def idle_table_def column_sum_def column_def)

text \<open>
  The theorem at that input.
\<close>

theorem zero_weight_column_witness:
  "\<exists>t. quick_crosstab example_df example_meta ''x'' ''y'' idle_weights = Inr t \<and>
       column_sum idle_aggregate 1 = 0 \<and> cols idle_aggregate ! 1 = cols t ! 1 \<and>
       column t 1 = replicate (length (index t)) (Fin 0)"
proof -
  have r: "set (dict_values [(Num 1, ''Yes''), (Num 2, ''No'')]) \<subseteq> set (index idle_aggregate)"
    and c: "set (dict_values [(Str ''A'', ''A''), (Str ''B'', ''B'')]) \<subseteq> set (cols idle_aggregate)"
    by (simp_all add: dict_values_def idle_aggregate_def)
  have n: "nonneg idle_weights" by (simp add: nonneg_def idle_weights_def nz_def)
  from zero_weight_column [OF idle_aggregated example_labels r c n]
  obtain t where q: "quick_crosstab example_df example_meta ''x'' ''y'' idle_weights = Inr t"
    and z: "\<forall>j<length (cols t). \<forall>j'<length (cols idle_aggregate).
               cols idle_aggregate ! j' = cols t ! j \<and> column_sum idle_aggregate j' = 0 \<longrightarrow>
               column t j = replicate (length (index t)) (Fin 0)"
    by blast
  from q have t: "t = idle_table" by (simp add: idle_value)
  have f: "column_sum idle_aggregate 1 = 0" "cols idle_aggregate ! 1 = cols t ! 1"
    "1 < length (cols t)" "1 < length (cols idle_aggregate)"
    by (simp_all add: t idle_aggregate_def idle_table_def column_sum_def)
  with z have "column t 1 = replicate (length (index t)) (Fin 0)" by blast
  with q f show ?thesis by blast
qed

subsection \<open>The last cell of the notebook (C9)\<close>

lemma exec_binds:
  assumes "exec env s = Inr env'"
  shows "set env' \<subseteq> set env \<union> (case s of Import m a \<Rightarrow> {a} | Assign ts e \<Rightarrow> set ts
           | FunctionDef f \<Rightarrow> {f} | Expr e \<Rightarrow> {})"
  using assms by (cases s) (auto split: sum.splits)

lemma notebook_never_binds_pt:
  assumes "s \<in> set notebook" and "exec env s = Inr env'" and "''pt'' \<notin> set env"
  shows "''pt'' \<notin> set env'"
proof -
  from assms(1) have "''pt'' \<notin> (case s of Import m a \<Rightarrow> {a} | Assign ts e \<Rightarrow> set ts
           | FunctionDef f \<Rightarrow> {f} | Expr e \<Rightarrow> {})"
    unfolding notebook_def cell_imports_def cell_read_def cell_def_def cell_crosstabs_def
      crosstab15_def heatmap_def ct18_voting_def
    by auto
  with exec_binds [OF assms(2)] assms(3) show ?thesis by blast
qed

lemma run_never_binds_pt:
  assumes "set ss \<subseteq> set notebook" and "run env ss = Inr env'" and "''pt'' \<notin> set env"
  shows "''pt'' \<notin> set env'"
  using assms
proof (induction ss arbitrary: env)
  case Nil
  then show ?case by simp
next
  case (Cons s ss)
  from Cons.prems(2) obtain env1 where e: "exec env s = Inr env1" and r: "run env1 ss = Inr env'"
    by (auto split: sum.splits)
  from Cons.prems(1) have "s \<in> set notebook" by simp
  from notebook_never_binds_pt [OF this e Cons.prems(3)] have "''pt'' \<notin> set env1" .
  with Cons.IH [of env1] Cons.prems(1) r show ?case by simp
qed

lemma ct18_voting_NameError:
  "''pt'' \<notin> set env \<Longrightarrow> exec env ct18_voting = Inl (NameError ''pt'')"
  by (simp add: ct18_voting_def eval_names_def)

text \<open>
  Claim C9. The assignment to \<open>ct18_voting\<close> is the last statement of the notebook,
  and it reads the name \<open>pt\<close> first. No statement of the notebook binds \<open>pt\<close>: in
  a namespace reached from builtins without that name by running any of the notebook's
  statements, in any order and any number of times, the statement raises
  \<open>NameError\<close> for \<open>pt\<close> and assigns nothing.
\<close>

theorem ct18_voting_undefined_name:
  assumes "''pt'' \<notin> set builtins" and "set ss \<subseteq> set notebook" and "run builtins ss = Inr env"
  shows "last notebook = ct18_voting \<and> exec env ct18_voting = Inl (NameError ''pt'')"
  using ct18_voting_NameError [OF run_never_binds_pt [OF assms(2,3,1)]]
  by (simp add: notebook_def)

lemma run_butlast_notebook:
  "run [''sum''] (butlast notebook) =
     Inr [''ct15_asians'', ''ct15_blacks'', ''ct15_whites'', ''demo'', ''quick_crosstab'',
          ''df18'', ''meta18'', ''df15'', ''meta15'', ''sns'', ''plt'', ''np'', ''pyreadstat'',
          ''pd'', ''sum'']"
  by code_simp

text \<open>
  Running the cells in order from a namespace with the builtin \<open>sum\<close>: every
  statement before the last finds its names, and the last one raises.
\<close>

theorem ct18_voting_undefined_name_witness:
  "run [''sum''] (butlast notebook) =
     Inr [''ct15_asians'', ''ct15_blacks'', ''ct15_whites'', ''demo'', ''quick_crosstab'',
          ''df18'', ''meta18'', ''df15'', ''meta15'', ''sns'', ''plt'', ''np'', ''pyreadstat'',
          ''pd'', ''sum''] \<and>
   exec [''ct15_asians'', ''ct15_blacks'', ''ct15_whites'', ''demo'', ''quick_crosstab'',
          ''df18'', ''meta18'', ''df15'', ''meta15'', ''sns'', ''plt'', ''np'', ''pyreadstat'',
          ''pd'', ''sum''] ct18_voting = Inl (NameError ''pt'') \<and>
   run [''sum''] notebook = Inl (NameError ''pt'')"
proof -
  have 1: "''pt'' \<notin> set [''sum'']" by simp
  have 2: "set (butlast notebook) \<subseteq> set notebook"
    by (auto dest: in_set_butlastD)
  have 3: "run [''sum''] notebook = Inl (NameError ''pt'')" by code_simp
  from ct18_voting_undefined_name [OF 1 2 run_butlast_notebook] run_butlast_notebook 3
  show ?thesis by simp
qed

subsection \<open>Weights of another length (C10)\<close>

lemma set_values_Array_mismatch:
  "ks \<noteq> [] \<Longrightarrow> length vs \<noteq> length ks \<Longrightarrow> set_values ks (Array vs) = Inl ValueError"
  by simp

lemma set_values_Series_distinct:
  "distinct (map fst s) \<Longrightarrow> \<exists>ds. set_values ks (Series s) = Inr ds"
  by simp

lemma loc_rows_not_ValueError: "loc_rows ls t \<noteq> Inl ValueError"
  by (simp add: loc_rows_def Let_def)

lemma loc_cols_not_ValueError: "loc_cols ls t \<noteq> Inl ValueError"
  by (simp add: loc_cols_def Let_def)

lemma quick_crosstab_ValueError:
  assumes "quick_crosstab df meta x y w = Inl ValueError"
  shows "\<exists>ks. set_values ks w = Inl ValueError"
proof (rule ccontr)
  assume no: "\<not> (\<exists>ks. set_values ks w = Inl ValueError)"
  have ct: "crosstab idx cls w \<noteq> Inl ValueError" for idx cls
    using no by (auto simp: crosstab_def split: sum.splits)
  have gi: "getitem df c \<noteq> Inl ValueError" for c
    by (simp add: getitem_def)
  have vl: "value_labels_of meta c \<noteq> Inl ValueError" for c
    by (simp add: value_labels_of_def split: option.splits)
  from assms show False
    unfolding quick_crosstab_def
    by (auto split: sum.splits simp: ct gi vl loc_rows_not_ValueError loc_cols_not_ValueError)
qed

lemma aligned_same_index:
  assumes "map fst s = [0..<n]"
  shows "aligned s n = map snd s"
proof (rule nth_equalityI)
  from assms have len: "length s = n" by (metis length_map length_upt minus_nat.diff_0)
  then show "length (aligned s n) = length (map snd s)" by (simp add: aligned_def)
  fix i assume "i < length (aligned s n)"
  then have i: "i < n" by (simp add: aligned_def)
  have d: "distinct (map fst s)" by (simp add: assms)
  have "fst (s ! i) = i" using i len assms by (metis add_0 nth_map nth_upt)
  moreover have "s ! i \<in> set s" using i len by simp
  ultimately have "map_of s i = Some (snd (s ! i))"
    using d by (metis map_of_is_SomeI prod.collapse)
  with i len show "aligned s n ! i = map snd s ! i" by (simp add: aligned_def)
qed

lemma set_values_Series_aligned:
  assumes "ks \<noteq> []" and "distinct (map fst s)"
  shows "set_values ks (Series s) = set_values ks (Array (aligned s (length ks)))"
proof (cases "map fst s = [0..<length ks]")
  case True
  then have "length (map snd s) = length ks"
    by (metis length_map length_upt minus_nat.diff_0)
  with True assms(1) show ?thesis by (simp add: aligned_same_index [OF True])
next
  case False
  have "map2 (\<lambda>(r, c) i. (r, c, case map_of s i of None \<Rightarrow> None | Some v \<Rightarrow> v)) ks [0..<length ks]
      = map2 (\<lambda>(r, c) v. (r, c, v)) ks (aligned s (length ks))"
    by (simp add: aligned_def zip_map2 split_def)
  with False assms show ?thesis by (simp add: aligned_def)
qed

text \<open>
  Claim C10, as amended. Take a table with at least one row. For weights passed as a
  plain sequence whose length is not the number of rows, the call raises an error:
  the \<open>KeyError\<close> of the first failed lookup when a column or a label map is absent
  (the lookups come first, in the order \<open>df[x]\<close>, the label map of \<open>x\<close>, \<open>df[y]\<close>,
  the label map of \<open>y\<close>), and \<open>ValueError\<close> otherwise. Weights passed as a Series
  with distinct row labels, as the notebook passes them, are never refused for their
  length: they are aligned on the row labels, that is, the call returns what it returns
  for the plain sequence that gives each row the weight at its label, a missing weight
  if there is none, and leaves out the weights of labels that no row has.
\<close>

theorem weights_length_mismatch:
  assumes "rows df \<noteq> []"
  shows "(length vs \<noteq> length (rows df) \<longrightarrow>
            quick_crosstab df meta x y (Array vs) =
              (if x \<notin> set (columns df) then Inl (KeyError DataColumn)
               else if x \<notin> dom (variable_value_labels meta) then Inl (KeyError ValueLabels)
               else if y \<notin> set (columns df) then Inl (KeyError DataColumn)
               else if y \<notin> dom (variable_value_labels meta) then Inl (KeyError ValueLabels)
               else Inl ValueError)) \<and>
         (distinct (map fst s) \<longrightarrow>
            quick_crosstab df meta x y (Series s) =
              quick_crosstab df meta x y (Array (aligned s (length (rows df)))) \<and>
            quick_crosstab df meta x y (Series s) \<noteq> Inl ValueError)"
proof (intro conjI impI)
  assume len: "length vs \<noteq> length (rows df)"
  show "quick_crosstab df meta x y (Array vs) =
              (if x \<notin> set (columns df) then Inl (KeyError DataColumn)
               else if x \<notin> dom (variable_value_labels meta) then Inl (KeyError ValueLabels)
               else if y \<notin> set (columns df) then Inl (KeyError DataColumn)
               else if y \<notin> dom (variable_value_labels meta) then Inl (KeyError ValueLabels)
               else Inl ValueError)"
  proof (cases "x \<in> set (columns df) \<and> x \<in> dom (variable_value_labels meta) \<and>
      y \<in> set (columns df) \<and> y \<in> dom (variable_value_labels meta)")
    case True
    then obtain dx dy where d: "variable_value_labels meta x = Some dx"
      "variable_value_labels meta y = Some dy" by auto
    let ?sx = "map (\<lambda>r. r x) (rows df)" and ?sy = "map (\<lambda>r. r y) (rows df)"
    have s: "getitem df x = Inr ?sx" "value_labels_of meta x = Inr dx"
      "getitem df y = Inr ?sy" "value_labels_of meta y = Inr dy"
      using True d by (simp_all add: getitem_def value_labels_of_def)
    let ?ks = "zip (map_series ?sx dx) (map_series ?sy dy)"
    have "length ?ks = length (rows df)" by (simp add: map_series_def)
    with assms len have "?ks \<noteq> []" "length vs \<noteq> length ?ks" by auto
    then have "set_values ?ks (Array vs) = Inl ValueError"
      by (rule set_values_Array_mismatch)
    then have "quick_crosstab df meta x y (Array vs) = Inl ValueError"
      by (simp add: quick_crosstab_def s crosstab_def)
    with True show ?thesis by simp
  next
    case False
    then show ?thesis
      unfolding quick_crosstab_def
      by (auto simp: getitem_def value_labels_of_def split: option.splits)
  qed
next
  assume dist: "distinct (map fst s)"
  show eq: "quick_crosstab df meta x y (Series s) =
      quick_crosstab df meta x y (Array (aligned s (length (rows df))))"
  proof (cases "\<exists>sx dx sy dy. getitem df x = Inr sx \<and> value_labels_of meta x = Inr dx \<and>
         getitem df y = Inr sy \<and> value_labels_of meta y = Inr dy")
    case False
    then show ?thesis
      unfolding quick_crosstab_def by (auto split: sum.splits)
  next
    case True
    then obtain sx dx sy dy where
      s: "getitem df x = Inr sx" "value_labels_of meta x = Inr dx"
         "getitem df y = Inr sy" "value_labels_of meta y = Inr dy"
      by blast
    let ?ks = "zip (map_series sx dx) (map_series sy dy)"
    have len: "length ?ks = length (rows df)"
      using length_getitem [OF s(1)] length_getitem [OF s(3)] by (simp add: map_series_def)
    with assms have "?ks \<noteq> []" by auto
    from set_values_Series_aligned [OF this dist]
    have "crosstab (map_series sx dx) (map_series sy dy) (Series s)
        = crosstab (map_series sx dx) (map_series sy dy) (Array (aligned s (length (rows df))))"
      by (simp only: crosstab_def len)
    then show ?thesis by (simp add: quick_crosstab_def s)
  qed
  show "quick_crosstab df meta x y (Series s) \<noteq> Inl ValueError"
  proof
    assume "quick_crosstab df meta x y (Series s) = Inl ValueError"
    then obtain ks where "set_values ks (Series s) = Inl ValueError"
      using quick_crosstab_ValueError by blast
    with set_values_Series_distinct [OF dist, of ks] show False
      by auto
  qed
qed

lemma shuffled_value:
  "quick_crosstab example_df example_meta ''x'' ''y'' shuffled_weights =
     Inr \<lparr>index = [''Yes'', ''No''], cols = [''A'', ''B''],
          cells = [[Fin 100, Fin 100], [Fin 0, Fin 0]]\<rparr>"
  by code_simp

text \<open>
  The claim as stated fails: on the three rows of the example, a Series of two weights
  and a Series of four weights both give a table. The row without a weight counts for
  nothing, and the weight without a row is dropped. A Series of two weights labelled 2
  and 0 gives the weight 5 to the last row and the weight 2 to the first: the weights
  go by label, not by position.
\<close>

theorem series_length_mismatch_returns:
  "length (rows example_df) = 3 \<and> length (weight_values short_weights) = 2 \<and>
   quick_crosstab example_df example_meta ''x'' ''y'' short_weights =
     Inr \<lparr>index = [''Yes'', ''No''], cols = [''A'', ''B''],
          cells = [[Fin 50, Fin 0], [Fin 50, Fin 0]]\<rparr> \<and>
   length (weight_values long_weights) = 4 \<and>
   quick_crosstab example_df example_meta ''x'' ''y'' long_weights = Inr example_table \<and>
   length (weight_values shuffled_weights) = 2 \<and>
   quick_crosstab example_df example_meta ''x'' ''y'' shuffled_weights =
     Inr \<lparr>index = [''Yes'', ''No''], cols = [''A'', ''B''],
          cells = [[Fin 100, Fin 100], [Fin 0, Fin 0]]\<rparr>"
  by (simp add: short_value long_value shuffled_value)
     (simp add: example_df_def short_weights_def long_weights_def shuffled_weights_def)

text \<open>
  A list of two weights for the three rows of the example raises \<open>ValueError\<close>, and
  \<open>KeyError\<close> when the column \<open>z\<close> is asked for. The Series with the labels 2 and 0
  is the plain sequence 2, missing, 5.
\<close>

theorem weights_length_mismatch_witness:
  "rows example_df \<noteq> [] \<and> length [Some 2, Some (2::real)] \<noteq> length (rows example_df) \<and>
   quick_crosstab example_df example_meta ''x'' ''y'' (Array [Some 2, Some 2]) = Inl ValueError \<and>
   quick_crosstab example_df example_meta ''z'' ''y'' (Array [Some 2, Some 2])
     = Inl (KeyError DataColumn) \<and>
   distinct (map fst [(2::nat, Some (5::real)), (0, Some 2)]) \<and>
   aligned [(2, Some 5), (0, Some 2)] (length (rows example_df)) = [Some 2, None, Some 5] \<and>
   quick_crosstab example_df example_meta ''x'' ''y'' (Series [(2, Some 5), (0, Some 2)])
     = quick_crosstab example_df example_meta ''x'' ''y'' (Array [Some 2, None, Some 5]) \<and>
   quick_crosstab example_df example_meta ''x'' ''y'' (Array [Some 2, None, Some 5])
     = Inr \<lparr>index = [''Yes'', ''No''], cols = [''A'', ''B''],
          cells = [[Fin 100, Fin 100], [Fin 0, Fin 0]]\<rparr>"
proof -
  have a: "rows example_df \<noteq> []" "length [Some 2, Some (2::real)] \<noteq> length (rows example_df)"
    by (simp_all add: example_df_def)
  have k: "''x'' \<in> set (columns example_df)" "''y'' \<in> set (columns example_df)"
      "''z'' \<notin> set (columns example_df)"
      "''x'' \<in> dom (variable_value_labels example_meta)"
      "''y'' \<in> dom (variable_value_labels example_meta)"
    by (simp_all add: example_df_def example_meta_def)
  have d: "distinct (map fst [(2::nat, Some (5::real)), (0, Some 2)])" by simp
  have al: "aligned [(2, Some 5), (0, Some 2)] (length (rows example_df)) = [Some 2, None, Some 5]"
    by (simp add: aligned_def example_df_def upt_rec)
  have v: "quick_crosstab example_df example_meta ''x'' ''y'' (Array [Some 2, None, Some 5])
     = Inr \<lparr>index = [''Yes'', ''No''], cols = [''A'', ''B''],
          cells = [[Fin 100, Fin 100], [Fin 0, Fin 0]]\<rparr>"
    by code_simp
  from weights_length_mismatch [OF a(1), where vs = "[Some 2, Some 2]" and x = "''x''"
      and y = "''y''" and meta = example_meta and s = "[(2, Some 5), (0, Some 2)]"]
    weights_length_mismatch [OF a(1), where vs = "[Some 2, Some 2]" and x = "''z''"
      and y = "''y''" and meta = example_meta and s = "[(2, Some 5), (0, Some 2)]"]
    a k d al v
  show ?thesis by (simp only: simp_thms if_True if_False)
qed


end
